theory Spec2Isabelle
  imports Main "HOL-Library.List_Lexorder" "HOL-Library.Sublist" "HOL-Library.Multiset"
    "HOL-Library.Word"
begin

section \<open>JSON values\<close>

text \<open>
  The values \<^verbatim>\<open>JSON.parse\<close> and \<^verbatim>\<open>res.json()\<close> hand to the program: null, booleans,
  numbers, strings, arrays and objects.

  A JavaScript string is a sequence of UTF-16 code units, and the order
  \<^verbatim>\<open>Array.prototype.sort\<close> uses without a comparator is the lexicographic order of these
  sequences, a proper prefix first. That is the order of \<open>16 word list\<close>.

  A number is a double. The program never computes with one, it prints it, tests whether it
  is zero and compares it with \<^verbatim>\<open>===\<close>. \<open>Whole n\<close> is the double of the integer \<open>n\<close>, for
  \<open>\<bar>n\<bar> \<le> 2\<^sup>5\<^sup>3\<close>, where every integer is a double and prints as its decimal digits.
  \<open>NegZero\<close> is \<^verbatim>\<open>-0\<close>, \<open>PosInf\<close> and \<open>NegInf\<close> are the infinities, which
  \<^verbatim>\<open>JSON.parse\<close> returns for a literal out of range such as \<^verbatim>\<open>1e999\<close>. Every other double
  (a fraction, or an integer beyond \<open>2\<^sup>5\<^sup>3\<close>) is \<open>Other s\<close> with \<open>s\<close> the text
  \<^verbatim>\<open>Number.prototype.toString\<close> gives it, such as \<^verbatim>\<open>0.5\<close>, \<^verbatim>\<open>1e+21\<close> or
  \<^verbatim>\<open>9007199254740994\<close>; two such doubles are equal exactly when their texts are.
  \<^verbatim>\<open>JSON.parse\<close> never returns \<^verbatim>\<open>NaN\<close>.

  An object is the list of its own properties, as \<^verbatim>\<open>Object.keys\<close> enumerates them. A
  JavaScript object holds each key once. \<open>wf_json\<close> holds of every value JavaScript can
  build: the keys of an object are distinct, a \<open>Whole\<close> is within its range, and the text
  of an \<open>Other\<close> is made of the characters of a number and is not the text of a
  \<open>Whole\<close> or of \<^verbatim>\<open>-0\<close>.
\<close>

type_synonym jsstring = "16 word list"

definition ascii :: "string \<Rightarrow> jsstring" where
  "ascii s = map of_char s"

datatype jsnum =
    Whole int
  | NegZero
  | PosInf
  | NegInf
  | Other jsstring

datatype json =
    JNull
  | JBool bool
  | JNum jsnum
  | JStr jsstring
  | JArr "json list"
  | JObj "(jsstring \<times> json) list"

definition number_text :: "jsstring \<Rightarrow> bool" where
  "number_text s = (s \<noteq> [] \<and> list_all (\<lambda>c. c \<in> set (ascii ''0123456789.e+-'')) s)"

definition digits_value :: "jsstring \<Rightarrow> nat" where
  "digits_value s = foldl (\<lambda>a c. 10 * a + (unat c - 48)) 0 s"

text \<open>The texts of the integers that \<open>Whole\<close> stands for, and \<^verbatim>\<open>-0\<close>.\<close>

definition whole_text :: "jsstring \<Rightarrow> bool" where
  "whole_text s =
     (let u = (if take 1 s = ascii ''-'' then drop 1 s else s)
      in u \<noteq> [] \<and> list_all (\<lambda>c. c \<in> set (ascii ''0123456789'')) u \<and>
         digits_value u \<le> 2 ^ 53)"

fun wf_num :: "jsnum \<Rightarrow> bool" where
  "wf_num (Whole n) = (\<bar>n\<bar> \<le> 2 ^ 53)"
| "wf_num (Other s) = (number_text s \<and> \<not> whole_text s)"
| "wf_num NegZero = True"
| "wf_num PosInf = True"
| "wf_num NegInf = True"

fun wf_json :: "json \<Rightarrow> bool" where
  "wf_json (JNum n) = wf_num n"
| "wf_json (JArr xs) = list_all wf_json xs"
| "wf_json (JObj kvs) = (distinct (map fst kvs) \<and> list_all (\<lambda>kv. wf_json (snd kv)) kvs)"
| "wf_json JNull = True"
| "wf_json (JBool b) = True"
| "wf_json (JStr s) = True"

subsection \<open>\<^verbatim>\<open>JSON.stringify\<close> on primitives\<close>

text \<open>
  \<^verbatim>\<open>canonicalStringify\<close> calls the built-in \<^verbatim>\<open>JSON.stringify\<close> only on primitives and on
  keys. On a string it quotes (QuoteJSONString of ECMAScript): the double quote and the
  backslash get a backslash, a control character its short escape or \<^verbatim>\<open>\u00xx\<close>, a
  surrogate that is not half of a pair \<^verbatim>\<open>\uxxxx\<close>, and every other code unit stands for
  itself.
\<close>

definition dq :: "16 word" where
  "dq = 0x22"

definition bsl :: "16 word" where
  "bsl = 0x5C"

definition hex_digit :: "nat \<Rightarrow> 16 word" where
  "hex_digit n = ascii ''0123456789abcdef'' ! (n mod 16)"

definition unicode_escape :: "16 word \<Rightarrow> jsstring" where
  "unicode_escape c =
     [bsl, 0x75, hex_digit (unat c div 4096), hex_digit (unat c div 256),
      hex_digit (unat c div 16), hex_digit (unat c)]"

definition quote_unit :: "16 word \<Rightarrow> jsstring" where
  "quote_unit c =
     (if c = dq then [bsl, dq]
      else if c = bsl then [bsl, bsl]
      else if c = 0x08 then bsl # ascii ''b''
      else if c = 0x0C then bsl # ascii ''f''
      else if c = 0x0A then bsl # ascii ''n''
      else if c = 0x0D then bsl # ascii ''r''
      else if c = 0x09 then bsl # ascii ''t''
      else if c < 0x20 then unicode_escape c
      else [c])"

definition leading_surrogate :: "16 word \<Rightarrow> bool" where
  "leading_surrogate c = (0xD800 \<le> c \<and> c \<le> 0xDBFF)"

definition trailing_surrogate :: "16 word \<Rightarrow> bool" where
  "trailing_surrogate c = (0xDC00 \<le> c \<and> c \<le> 0xDFFF)"

fun quote_units :: "jsstring \<Rightarrow> jsstring" where
  "quote_units [] = []"
| "quote_units [c] =
     (if leading_surrogate c \<or> trailing_surrogate c then unicode_escape c else quote_unit c)"
| "quote_units (c # d # cs) =
     (if leading_surrogate c \<and> trailing_surrogate d then c # d # quote_units cs
      else if leading_surrogate c \<or> trailing_surrogate c
        then unicode_escape c @ quote_units (d # cs)
      else quote_unit c @ quote_units (d # cs))"

definition quote_string :: "jsstring \<Rightarrow> jsstring" where
  "quote_string s = [dq] @ quote_units s @ [dq]"

definition digit_unit :: "nat \<Rightarrow> 16 word" where
  "digit_unit n = ascii ''0123456789'' ! (n mod 10)"

fun show_nat :: "nat \<Rightarrow> jsstring" where
  "show_nat n =
     (if n < 10 then [digit_unit n]
      else show_nat (n div 10) @ [digit_unit n])"

declare show_nat.simps [simp del]

definition show_int :: "int \<Rightarrow> jsstring" where
  "show_int i = (if i < 0 then ascii ''-'' @ show_nat (nat (- i)) else show_nat (nat i))"

text \<open>
  \<^verbatim>\<open>JSON.stringify\<close> on a number: \<^verbatim>\<open>null\<close> for one that is not finite, and otherwise the
  text of \<^verbatim>\<open>Number.prototype.toString\<close>, which writes \<^verbatim>\<open>-0\<close> as \<^verbatim>\<open>0\<close>.
\<close>

fun number_to_json :: "jsnum \<Rightarrow> jsstring" where
  "number_to_json (Whole n) = show_int n"
| "number_to_json NegZero = ascii ''0''"
| "number_to_json PosInf = ascii ''null''"
| "number_to_json NegInf = ascii ''null''"
| "number_to_json (Other s) = s"

subsection \<open>\<^verbatim>\<open>canonicalStringify\<close> (server.js, lines 32 to 39)\<close>

text \<open>
  The function calls itself once for each level of nesting, through the callbacks of
  \<^verbatim>\<open>map\<close>, and JavaScript throws a \<^verbatim>\<open>RangeError\<close> when a call finds the call stack
  full. The first argument of the model is the number of nested calls of
  \<^verbatim>\<open>canonicalStringify\<close> the stack still has room for. The result is the string, or the
  error thrown, together with the argument as the call leaves it: \<^verbatim>\<open>value.map\<close> builds a
  new array, \<^verbatim>\<open>Object.keys\<close> returns a new array, which \<^verbatim>\<open>sort\<close> then sorts in place,
  and \<^verbatim>\<open>value[k]\<close> reads; the elements and property values are what the calls on them
  leave.
\<close>

datatype error = RangeError

fun join :: "'a list \<Rightarrow> 'a list list \<Rightarrow> 'a list" where
  "join sep [] = []"
| "join sep [x] = x"
| "join sep (x # y # ys) = x @ sep @ join sep (y # ys)"

text \<open>
  \<^verbatim>\<open>xs.map(f)\<close> for a callback that may throw: the elements are visited in order, and a
  throw ends the visit.
\<close>

fun map_throw :: "('a \<Rightarrow> (error + 'b) \<times> 'a) \<Rightarrow> 'a list \<Rightarrow> (error + 'b list) \<times> 'a list" where
  "map_throw f [] = (Inr [], [])"
| "map_throw f (x # xs) =
     (case f x of
        (Inl e, x') \<Rightarrow> (Inl e, x' # xs)
      | (Inr y, x') \<Rightarrow>
          (case map_throw f xs of
             (Inl e, xs') \<Rightarrow> (Inl e, x' # xs')
           | (Inr ys, xs') \<Rightarrow> (Inr (y # ys), x' # xs')))"

text \<open>The property \<open>k\<close> of an object, holding \<open>v\<close> after a call on its value.\<close>

fun set_property :: "jsstring \<Rightarrow> json \<Rightarrow> (jsstring \<times> json) list \<Rightarrow> (jsstring \<times> json) list" where
  "set_property k v [] = []"
| "set_property k v ((k', v') # kvs) =
     (if k' = k then (k, v) # kvs else (k', v') # set_property k v kvs)"

text \<open>
  \<^verbatim>\<open>keys.map(k => JSON.stringify(k) + ":" + canonicalStringify(value[k]))\<close>, with \<open>f\<close> the
  recursive call. \<^verbatim>\<open>value[k]\<close> is \<open>map_of kvs k\<close>. Every \<open>k\<close> the source passes comes
  from \<^verbatim>\<open>Object.keys(value)\<close>, so the property exists; the other branch is what
  JavaScript concatenates for an absent one.
\<close>

fun map_keys ::
  "(json \<Rightarrow> (error + jsstring) \<times> json) \<Rightarrow> jsstring list \<Rightarrow> (jsstring \<times> json) list \<Rightarrow>
   (error + jsstring list) \<times> (jsstring \<times> json) list" where
  "map_keys f [] kvs = (Inr [], kvs)"
| "map_keys f (k # ks) kvs =
     (case (case map_of kvs k of
              None \<Rightarrow> (Inr (ascii ''undefined''), kvs)
            | Some v \<Rightarrow> (case f v of (r, v') \<Rightarrow> (r, set_property k v' kvs))) of
        (Inl e, kvs') \<Rightarrow> (Inl e, kvs')
      | (Inr s, kvs') \<Rightarrow>
          (case map_keys f ks kvs' of
             (Inl e, kvs'') \<Rightarrow> (Inl e, kvs'')
           | (Inr ss, kvs'') \<Rightarrow> (Inr ((quote_string k @ ascii '':'' @ s) # ss), kvs'')))"

fun canonicalStringify :: "nat \<Rightarrow> json \<Rightarrow> (error + jsstring) \<times> json" where
  "canonicalStringify 0 v = (Inl RangeError, v)"
| "canonicalStringify (Suc stack) JNull = (Inr (ascii ''null''), JNull)"
| "canonicalStringify (Suc stack) (JBool b) =
     (Inr (if b then ascii ''true'' else ascii ''false''), JBool b)"
| "canonicalStringify (Suc stack) (JNum n) = (Inr (number_to_json n), JNum n)"
| "canonicalStringify (Suc stack) (JStr s) = (Inr (quote_string s), JStr s)"
| "canonicalStringify (Suc stack) (JArr xs) =
     (case map_throw (canonicalStringify stack) xs of
        (Inl e, xs') \<Rightarrow> (Inl e, JArr xs')
      | (Inr ss, xs') \<Rightarrow> (Inr (ascii ''['' @ join (ascii '','') ss @ ascii '']''), JArr xs'))"
| "canonicalStringify (Suc stack) (JObj kvs) =
     (let keys = sort (map fst kvs) in
      case map_keys (canonicalStringify stack) keys kvs of
        (Inl e, kvs') \<Rightarrow> (Inl e, JObj kvs')
      | (Inr ss, kvs') \<Rightarrow> (Inr (ascii ''{'' @ join (ascii '','') ss @ ascii ''}''), JObj kvs'))"



section \<open>The environment of a probe\<close>

text \<open>
  A probe talks to the network through \<^verbatim>\<open>fetch\<close> and, in server.js, to the file system
  through \<^verbatim>\<open>fs.readFileSync\<close>. Both are parameters of the model. \<^verbatim>\<open>fetch\<close> either
  rejects (network failure, or the abort the timeout controller sends) or resolves with a
  response, of which the code reads the status, the content-type header and
  \<^verbatim>\<open>res.json()\<close>, which itself may reject. Within one probe no method and URL is fetched
  twice, so a function of both describes the network. \<^verbatim>\<open>fs.readFileSync\<close> gives the text
  of a file or throws, and \<^verbatim>\<open>JSON.parse\<close> gives a value or throws; \<open>None\<close> is the throw.

  What a probe does besides returning its verdict is its list of effects, in order:
  \<open>SetTimeout ms\<close> is \<^verbatim>\<open>abortSignalWithTimeout(ms)\<close>, which creates the abort controller and
  its timer, \<open>ClearTimeout\<close> is \<^verbatim>\<open>cancel()\<close>, \<open>Fetch\<close> a request that goes out, \<open>ReadFile\<close>
  a read of the file system and \<open>Warn\<close> a \<^verbatim>\<open>console.warn\<close> about a file.
\<close>

datatype verdict = green | red

datatype meth = HEAD | GET

record response =
  status :: int
  content_type :: "string option"
  body_json :: "json option"

type_synonym transport = "meth \<Rightarrow> string \<Rightarrow> response option"

type_synonym filesystem = "string \<Rightarrow> string option"

type_synonym parser = "string \<Rightarrow> json option"

datatype effect =
    SetTimeout int
  | ClearTimeout
  | Fetch meth string
  | ReadFile string
  | Warn string

subsection \<open>JavaScript operators the probes use\<close>

text \<open>Truthiness, as \<^verbatim>\<open>!x\<close> and \<^verbatim>\<open>x || y\<close> test it: of the numbers, the two zeros are falsy.\<close>

fun truthy :: "json \<Rightarrow> bool" where
  "truthy JNull = False"
| "truthy (JBool b) = b"
| "truthy (JNum n) = (n \<noteq> Whole 0 \<and> n \<noteq> NegZero)"
| "truthy (JStr s) = (s \<noteq> [])"
| "truthy (JArr xs) = True"
| "truthy (JObj kvs) = True"

text \<open>\<^verbatim>\<open>x?.name\<close>: only an object has the property; \<open>None\<close> is \<^verbatim>\<open>undefined\<close>.\<close>

fun get_name :: "json \<Rightarrow> json option" where
  "get_name (JObj kvs) = map_of kvs (ascii ''name'')"
| "get_name _ = None"

text \<open>
  \<^verbatim>\<open>a === b\<close> where \<open>a\<close> may be \<^verbatim>\<open>undefined\<close>: primitives compare by value, the two zeros
  are equal, and two arrays or objects that come from two parses are never the same
  object.
\<close>

fun strict_eq_num :: "jsnum \<Rightarrow> jsnum \<Rightarrow> bool" where
  "strict_eq_num NegZero b = (b = NegZero \<or> b = Whole 0)"
| "strict_eq_num a NegZero = (a = Whole 0)"
| "strict_eq_num a b = (a = b)"

fun strict_eq :: "json option \<Rightarrow> json \<Rightarrow> bool" where
  "strict_eq (Some JNull) JNull = True"
| "strict_eq (Some (JBool a)) (JBool b) = (a = b)"
| "strict_eq (Some (JNum a)) (JNum b) = strict_eq_num a b"
| "strict_eq (Some (JStr a)) (JStr b) = (a = b)"
| "strict_eq _ _ = False"

text \<open>\<^verbatim>\<open>s.includes(sub)\<close> and \<^verbatim>\<open>s.toLowerCase()\<close> on ASCII.\<close>

definition str_includes :: "string \<Rightarrow> string \<Rightarrow> bool" where
  "str_includes s sub = sublist sub s"

definition lower_char :: "char \<Rightarrow> char" where
  "lower_char c =
     (case map_of (zip ''ABCDEFGHIJKLMNOPQRSTUVWXYZ'' ''abcdefghijklmnopqrstuvwxyz'') c of
        Some l \<Rightarrow> l
      | None \<Rightarrow> c)"

definition toLowerCase :: "string \<Rightarrow> string" where
  "toLowerCase s = map lower_char s"

subsection \<open>Configuration read from files (server.js, lines 14 to 30)\<close>


definition BOM :: string where
  "BOM = [CHR 0xEF, CHR 0xBB, CHR 0xBF]"

definition strip_bom :: "string \<Rightarrow> string" where
  "strip_bom raw = (if prefix BOM raw then drop (length BOM) raw else raw)"

text \<open>
  \<^verbatim>\<open>readJsonFile\<close> returns what \<^verbatim>\<open>JSON.parse\<close> returns, and \<^verbatim>\<open>null\<close> after a warning
  when reading or parsing throws.
\<close>

definition readJsonFile :: "parser \<Rightarrow> filesystem \<Rightarrow> string \<Rightarrow> json \<times> effect list" where
  "readJsonFile parse files path =
     (case files path of
        None \<Rightarrow> (JNull, [ReadFile path, Warn path])
      | Some raw \<Rightarrow>
          (case parse (strip_bom raw) of
             None \<Rightarrow> (JNull, [ReadFile path, Warn path])
           | Some v \<Rightarrow> (v, [ReadFile path])))"

section \<open>The probes\<close>

definition isOkStatus :: "int \<Rightarrow> bool" where
  "isOkStatus code = (code \<ge> 200 \<and> code < 400)"

text \<open>\<^verbatim>\<open>tryMethod\<close> of \<^verbatim>\<open>probeHostBasic\<close>: a rejected \<^verbatim>\<open>fetch\<close> is caught and is not ok.\<close>

definition tryMethod :: "transport \<Rightarrow> string \<Rightarrow> meth \<Rightarrow> bool" where
  "tryMethod net url m =
     (case net m url of Some res \<Rightarrow> isOkStatus (status res) | None \<Rightarrow> False)"

definition probeHostBasic :: "int \<Rightarrow> transport \<Rightarrow> string \<Rightarrow> verdict \<times> effect list" where
  "probeHostBasic tmo net host =
     (let url = ''https://'' @ host @ ''/'' in
      if tryMethod net url HEAD
      then (green, [SetTimeout tmo, Fetch HEAD url, ClearTimeout])
      else (if tryMethod net url GET then green else red,
            [SetTimeout tmo, Fetch HEAD url, Fetch GET url, ClearTimeout]))"

definition probeNameMatch ::
  "int \<Rightarrow> transport \<Rightarrow> string \<Rightarrow> json \<Rightarrow> verdict \<times> effect list" where
  "probeNameMatch tmo net url expectedName =
     (if \<not> truthy expectedName then (red, [])
      else
        ((case net GET url of
            None \<Rightarrow> red
          | Some res \<Rightarrow>
              if \<not> isOkStatus (status res) then red
              else (case body_json res of
                      None \<Rightarrow> red
                    | Some live \<Rightarrow>
                        if strict_eq (get_name live) expectedName then green else red)),
         [SetTimeout tmo, Fetch GET url, ClearTimeout]))"

text \<open>
  \<^verbatim>\<open>probeJsonExactMatch\<close>. \<open>stack\<close> is the room the call stack has where the probe calls
  \<^verbatim>\<open>canonicalStringify\<close>, first on the live body and then on the reference document; a
  \<^verbatim>\<open>RangeError\<close> from either call lands in the \<^verbatim>\<open>catch\<close> that returns red.
\<close>

definition probeJsonExactMatch ::
  "nat \<Rightarrow> int \<Rightarrow> parser \<Rightarrow> filesystem \<Rightarrow> transport \<Rightarrow> string \<Rightarrow> string \<Rightarrow>
   verdict \<times> effect list" where
  "probeJsonExactMatch stack tmo parse files net url expectedJsonPath =
     (case readJsonFile parse files expectedJsonPath of
        (expected, log) \<Rightarrow>
          if expected = JNull then (red, log)
          else
            ((case net GET url of
                None \<Rightarrow> red
              | Some res \<Rightarrow>
                  if \<not> isOkStatus (status res) then red
                  else (case body_json res of
                          None \<Rightarrow> red
                        | Some live \<Rightarrow>
                            (case fst (canonicalStringify stack live) of
                               Inl e \<Rightarrow> red
                             | Inr liveCanon \<Rightarrow>
                                 (case fst (canonicalStringify stack expected) of
                                    Inl e \<Rightarrow> red
                                  | Inr expCanon \<Rightarrow>
                                      if liveCanon = expCanon then green else red)))),
             log @ [SetTimeout tmo, Fetch GET url, ClearTimeout]))"

text \<open>
  The two probes of the second server file. In each probe above and below the timeout is
  cleared in a \<^verbatim>\<open>finally\<close>, whatever the verdict, and a rejected \<^verbatim>\<open>fetch\<close> or
  \<^verbatim>\<open>res.json()\<close> lands in the \<^verbatim>\<open>catch\<close> that returns red.
\<close>

definition probeJsonAny :: "int \<Rightarrow> transport \<Rightarrow> string \<Rightarrow> verdict \<times> effect list" where
  "probeJsonAny tmo net url =
     ((case net GET url of
         None \<Rightarrow> red
       | Some res \<Rightarrow>
           if \<not> isOkStatus (status res) then red
           else
             (let ct = toLowerCase (case content_type res of None \<Rightarrow> [] | Some h \<Rightarrow> h) in
              if str_includes ct ''application/json'' \<or> str_includes ct ''+json'' then green
              else (case body_json res of Some live \<Rightarrow> green | None \<Rightarrow> red))),
      [SetTimeout tmo, Fetch GET url, ClearTimeout])"

definition probeUrlOk :: "int \<Rightarrow> transport \<Rightarrow> string \<Rightarrow> verdict \<times> effect list" where
  "probeUrlOk tmo net url =
     ((case net GET url of
         None \<Rightarrow> red
       | Some res \<Rightarrow> if isOkStatus (status res) then green else red),
      [SetTimeout tmo, Fetch GET url, ClearTimeout])"

subsection \<open>Dispatch (server.js, lines 55 to 66 and 132 to 141)\<close>

datatype custom_check =
    NameMatch string json
  | JsonExactMatch string string

text \<open>
  \<^verbatim>\<open>CUSTOM_CHECKS\<close> holds the expected name computed at load and the path of the
  reference document, which comes from the process environment.
\<close>

definition CUSTOM_CHECKS :: "json \<Rightarrow> string \<Rightarrow> string \<Rightarrow> custom_check option" where
  "CUSTOM_CHECKS expected_session_name expected_apims_json_path host =
     (if host = ''sessionserver.mojang.com''
      then Some (NameMatch
        ''https://sessionserver.mojang.com/session/minecraft/profile/853c80ef3c3749fdaa49938b674adae6''
        expected_session_name)
      else if host = ''api.minecraftservices.com''
      then Some (JsonExactMatch ''https://api.minecraftservices.com/minecraft/profile/''
        expected_apims_json_path)
      else None)"

definition probeHost ::
  "nat \<Rightarrow> int \<Rightarrow> parser \<Rightarrow> filesystem \<Rightarrow> transport \<Rightarrow> json \<Rightarrow> string \<Rightarrow> string \<Rightarrow>
   verdict \<times> effect list" where
  "probeHost stack tmo parse files net expected_session_name expected_apims_json_path host =
     (case CUSTOM_CHECKS expected_session_name expected_apims_json_path host of
        Some (NameMatch url expectedName) \<Rightarrow> probeNameMatch tmo net url expectedName
      | Some (JsonExactMatch url expectedJsonPath) \<Rightarrow>
          probeJsonExactMatch stack tmo parse files net url expectedJsonPath
      | None \<Rightarrow> probeHostBasic tmo net host)"

section \<open>The cache\<close>

text \<open>
  \<^verbatim>\<open>getStatusData\<close> is the same in both server files. JavaScript runs each piece of code
  between two \<^verbatim>\<open>await\<close>s to its end before anything else runs, so the system moves in
  atomic steps of two kinds: a call of \<^verbatim>\<open>getStatusData\<close> up to its \<^verbatim>\<open>return\<close>, and the
  continuation of a refresh after its \<^verbatim>\<open>Promise.all\<close> has resolved. A promise is the
  number it was created with. Besides the variable \<^verbatim>\<open>cache\<close> the state holds the refreshes
  whose continuation has not run yet, each with the \<^verbatim>\<open>now\<close> its closure captured, the
  promises that have resolved with their payloads, and the hosts \<^verbatim>\<open>probeHost\<close> has been
  called for. The probes of a refresh never reject (every \<^verbatim>\<open>fetch\<close> sits in a
  \<^verbatim>\<open>try\<close>), so a refresh ends with one result for each host.
\<close>

definition HOSTS :: "string list" where
  "HOSTS =
     [''minecraft.net'', ''session.minecraft.net'', ''api.mojang.com'',
      ''authserver.mojang.com'', ''sessionserver.mojang.com'', ''login.microsoftonline.com'',
      ''textures.minecraft.net'', ''pc.realms.minecraft.net'',
      ''resources.download.minecraft.net'', ''libraries.minecraft.net'',
      ''api.minecraftservices.com'']"

type_synonym snapshot = "(string \<times> verdict) list"

record cache_state =
  data :: "snapshot option"
  expires :: int
  inFlight :: "nat option"

record system =
  cache :: cache_state
  pending :: "(nat \<times> int) list"
  settled :: "(nat \<times> snapshot) list"
  next_promise :: nat
  probed :: "string list"

definition init :: system where
  "init =
     \<lparr>cache = \<lparr>data = None, expires = 0, inFlight = None\<rparr>,
      pending = [], settled = [], next_promise = 0, probed = []\<rparr>"

datatype reply = Value snapshot | Promise nat

text \<open>\<^verbatim>\<open>cache.data && cache.expires > now\<close>; an array is truthy, also the empty one.\<close>

definition fresh_data :: "cache_state \<Rightarrow> int \<Rightarrow> snapshot option" where
  "fresh_data c now =
     (case data c of
        Some d \<Rightarrow> if expires c > now then Some d else None
      | None \<Rightarrow> None)"

definition getStatusData :: "string list \<Rightarrow> int \<Rightarrow> system \<Rightarrow> reply \<times> system" where
  "getStatusData hosts now s =
     (case fresh_data (cache s) now of
        Some d \<Rightarrow> (Value d, s)
      | None \<Rightarrow>
          (case inFlight (cache s) of
             Some p \<Rightarrow> (Promise p, s)
           | None \<Rightarrow>
               (let p = next_promise s in
                (Promise p,
                 s\<lparr>cache := (cache s)\<lparr>inFlight := Some p\<rparr>,
                   pending := pending s @ [(p, now)],
                   next_promise := Suc p,
                   probed := probed s @ hosts\<rparr>))))"

text \<open>
  The continuation of refresh \<open>p\<close>, run with the results of \<^verbatim>\<open>Promise.all\<close>: it builds the
  payload, replaces \<^verbatim>\<open>cache\<close> and resolves the promise. It can only run for a refresh
  that is pending, and \<^verbatim>\<open>Promise.all\<close> gives one result for each host.
\<close>

definition finish_refresh ::
  "string list \<Rightarrow> int \<Rightarrow> nat \<Rightarrow> verdict list \<Rightarrow> system \<Rightarrow> system option" where
  "finish_refresh hosts ttl p results s =
     (case map_of (pending s) p of
        None \<Rightarrow> None
      | Some now \<Rightarrow>
          if length results = length hosts
          then (let payload = zip hosts results in
                Some (s\<lparr>cache := \<lparr>data = Some payload, expires = now + ttl, inFlight = None\<rparr>,
                        pending := filter (\<lambda>q. fst q \<noteq> p) (pending s),
                        settled := (p, payload) # settled s\<rparr>))
          else None)"

text \<open>
  An event is a call, with what \<^verbatim>\<open>Date.now()\<close> returned to it, or the completion of a
  refresh, with the time on the clock at that moment (which the code does not read) and
  the results of the probes.
\<close>

datatype event = Call int | Complete nat int "verdict list"

fun step :: "string list \<Rightarrow> int \<Rightarrow> event \<Rightarrow> system \<Rightarrow> system option" where
  "step hosts ttl (Call now) s = Some (snd (getStatusData hosts now s))"
| "step hosts ttl (Complete p t results) s = finish_refresh hosts ttl p results s"

fun run :: "string list \<Rightarrow> int \<Rightarrow> event list \<Rightarrow> system \<Rightarrow> system option" where
  "run hosts ttl [] s = Some s"
| "run hosts ttl (e # es) s =
     (case step hosts ttl e s of None \<Rightarrow> None | Some s' \<Rightarrow> run hosts ttl es s')"

text \<open>Calls that arrive one after the other with no completion in between.\<close>

fun calls :: "string list \<Rightarrow> int list \<Rightarrow> system \<Rightarrow> reply list \<times> system" where
  "calls hosts [] s = ([], s)"
| "calls hosts (now # nows) s =
     (case getStatusData hosts now s of
        (r, s') \<Rightarrow> (case calls hosts nows s' of (rs, s'') \<Rightarrow> (r # rs, s'')))"

text \<open>
  The invariant behind single flight: the refreshes whose continuation has not run are
  exactly the one \<^verbatim>\<open>cache.inFlight\<close> holds, or none.
\<close>

definition single_flight :: "system \<Rightarrow> bool" where
  "single_flight s =
     (map fst (pending s) = (case inFlight (cache s) of None \<Rightarrow> [] | Some p \<Rightarrow> [p]))"

section \<open>Example inputs\<close>

text \<open>Networks and states the examples below are evaluated on.\<close>

definition plain :: "int \<Rightarrow> response" where
  "plain code = \<lparr>status = code, content_type = None, body_json = None\<rparr>"

definition net_head404_get200 :: transport where
  "net_head404_get200 m url = (case m of HEAD \<Rightarrow> Some (plain 404) | GET \<Rightarrow> Some (plain 200))"

definition net_all500 :: transport where
  "net_all500 m url = Some (plain 500)"

text \<open>A network that answers every request with the given status and no body.\<close>

definition net_plain :: "int \<Rightarrow> transport" where
  "net_plain code m url = Some (plain code)"

definition net_down :: transport where
  "net_down m url = None"

definition net_json :: "string \<Rightarrow> json \<Rightarrow> transport" where
  "net_json ct v m url = Some \<lparr>status = 200, content_type = Some ct, body_json = Some v\<rparr>"

definition net_text :: "string \<Rightarrow> transport" where
  "net_text ct m url = Some \<lparr>status = 200, content_type = Some ct, body_json = None\<rparr>"

text \<open>A network that answers every request with the given status and JSON body.\<close>

definition net_status :: "int \<Rightarrow> json \<Rightarrow> transport" where
  "net_status code v m url =
     Some \<lparr>status = code, content_type = Some ''application/json'', body_json = Some v\<rparr>"

text \<open>
  File systems, and a parser that knows the documents of the examples and rejects every
  other text.
\<close>

definition no_files :: filesystem where
  "no_files path = None"

definition one_file :: "string \<Rightarrow> string \<Rightarrow> filesystem" where
  "one_file name raw path = (if path = name then Some raw else None)"

definition parse_example :: parser where
  \<open>parse_example raw =
     (if raw = ''null'' then Some JNull
      else if raw = ''{"b":2,"a":1}''
        then Some (JObj [(ascii ''b'', JNum (Whole 2)), (ascii ''a'', JNum (Whole 1))])
      else if raw = ''{"a":2}'' then Some (JObj [(ascii ''a'', JNum (Whole 2))])
      else if raw = ''{"name":"jeb_"}'' then Some (JObj [(ascii ''name'', JStr (ascii ''jeb_''))])
      else if raw = ''[null]'' then Some (JArr [JNull])
      else None)\<close>






definition apims_url :: string where
  "apims_url = ''https://api.minecraftservices.com/minecraft/profile/''"

text \<open>The system after one refresh that began at time 0 and found every host green.\<close>

definition warm :: system where
  "warm =
     \<lparr>cache = \<lparr>data = Some (zip HOSTS (replicate 11 green)), expires = 30000, inFlight = None\<rparr>,
      pending = [], settled = [(0, zip HOSTS (replicate 11 green))], next_promise = 1,
      probed = HOSTS\<rparr>"

text \<open>The system after the first call, at time 0, while its refresh is running.\<close>

definition refreshing :: system where
  "refreshing =
     \<lparr>cache = \<lparr>data = None, expires = 0, inFlight = Some 0\<rparr>,
      pending = [(0, 0)], settled = [], next_promise = 1, probed = HOSTS\<rparr>"

section \<open>Properties of \<^verbatim>\<open>canonicalStringify\<close>\<close>


























lemmas eval_canon = ascii_def show_int_def show_nat.simps digit_unit_def quote_string_def
  quote_unit_def dq_def bsl_def leading_surrogate_def trailing_surrogate_def

lemma ex_obj1:
  "fst (canonicalStringify (Suc (Suc d))
     (JObj [(ascii ''b'', JNum (Whole 1)), (ascii ''a'', JNum (Whole 2))])) =
   Inr (ascii ''{\"a\":2,\"b\":1}'')"
  by (simp add: eval_canon)

lemma canonicalStringify_numeral:
  "canonicalStringify (numeral k) JNull = canonicalStringify (Suc 0) JNull"
  "canonicalStringify (numeral k) (JBool b) = canonicalStringify (Suc 0) (JBool b)"
  "canonicalStringify (numeral k) (JNum n) = canonicalStringify (Suc 0) (JNum n)"
  "canonicalStringify (numeral k) (JStr s) = canonicalStringify (Suc 0) (JStr s)"
  "canonicalStringify (numeral k) (JArr xs) =
     (case map_throw (canonicalStringify (pred_numeral k)) xs of
        (Inl e, xs') \<Rightarrow> (Inl e, JArr xs')
      | (Inr ss, xs') \<Rightarrow> (Inr (ascii ''['' @ join (ascii '','') ss @ ascii '']''), JArr xs'))"
  "canonicalStringify (numeral k) (JObj kvs) =
     (let keys = sort (map fst kvs) in
      case map_keys (canonicalStringify (pred_numeral k)) keys kvs of
        (Inl e, kvs') \<Rightarrow> (Inl e, JObj kvs')
      | (Inr ss, kvs') \<Rightarrow> (Inr (ascii ''{'' @ join (ascii '','') ss @ ascii ''}''), JObj kvs'))"
  by (simp_all only: numeral_eq_Suc canonicalStringify.simps)

lemmas eval_stack = eval_canon canonicalStringify_numeral


text \<open>
  The primitives and the order of keys, evaluated. Keys are sorted by code unit: the key
  made of the surrogate pair \<^verbatim>\<open>D83D DE00\<close> comes before the key \<^verbatim>\<open>FF5E\<close>, which by code
  point would come first. In a string, a surrogate with no partner and a control
  character are escaped, and \<^verbatim>\<open>7F\<close> is not. A fraction is written as it is, \<^verbatim>\<open>-0\<close> as
  \<^verbatim>\<open>0\<close> and an infinity as \<^verbatim>\<open>null\<close>.
\<close>

lemma canonicalStringify_examples:
  \<open>fst (canonicalStringify 10000 (JObj [([0xFF5E], JNull), ([0xD83D, 0xDE00], JNull)])) =
     Inr (ascii ''{"'' @ [0xD83D, 0xDE00] @ ascii ''":null,"'' @ [0xFF5E] @ ascii ''":null}'') \<and>
   fst (canonicalStringify 10000 (JStr [0xD83D, 0x0A, 0x22, 0x1F, 0x7F])) =
     Inr (ascii ''"'' @ [bsl] @ ascii ''ud83d'' @ [bsl] @ ascii ''n'' @ [bsl] @ ascii ''"'' @
          [bsl] @ ascii ''u001f'' @ [0x7F] @ ascii ''"'') \<and>
   fst (canonicalStringify 10000
          (JArr [JNum (Other (ascii ''0.5'')), JNum NegZero, JNum NegInf, JNum (Whole (- 12)),
                 JBool True])) =
     Inr (ascii ''[0.5,0,null,-12,true]'') \<and>
   wf_json (JArr [JNum (Other (ascii ''0.5'')), JNum (Other (ascii ''1e+21'')),
                  JNum (Other (ascii ''9007199254740994'')), JNum (Whole 9007199254740992),
                  JNum NegZero]) \<and>
   \<not> wf_json (JNum (Whole 9007199254740993)) \<and>
   \<not> wf_json (JNum (Other (ascii ''12''))) \<and>
   \<not> wf_json (JObj [(ascii ''a'', JNull), (ascii ''a'', JNull)])\<close>
proof -
  have a: \<open>fst (canonicalStringify 10000 (JObj [([0xFF5E], JNull), ([0xD83D, 0xDE00], JNull)])) =
     Inr (ascii ''{"'' @ [0xD83D, 0xDE00] @ ascii ''":null,"'' @ [0xFF5E] @ ascii ''":null}'')\<close>
    by (simp add: eval_stack)
  have b: \<open>fst (canonicalStringify 10000 (JStr [0xD83D, 0x0A, 0x22, 0x1F, 0x7F])) =
     Inr (ascii ''"'' @ [bsl] @ ascii ''ud83d'' @ [bsl] @ ascii ''n'' @ [bsl] @ ascii ''"'' @
          [bsl] @ ascii ''u001f'' @ [0x7F] @ ascii ''"'')\<close>
    by (simp add: eval_stack unicode_escape_def hex_digit_def)
  have c: \<open>fst (canonicalStringify 10000
          (JArr [JNum (Other (ascii ''0.5'')), JNum NegZero, JNum NegInf, JNum (Whole (- 12)),
                 JBool True])) =
     Inr (ascii ''[0.5,0,null,-12,true]'')\<close>
    by (simp add: eval_stack)
  have d: \<open>wf_json (JArr [JNum (Other (ascii ''0.5'')), JNum (Other (ascii ''1e+21'')),
                  JNum (Other (ascii ''9007199254740994'')), JNum (Whole 9007199254740992),
                  JNum NegZero])\<close>
    \<open>\<not> wf_json (JNum (Whole 9007199254740993))\<close>
    \<open>\<not> wf_json (JNum (Other (ascii ''12'')))\<close>
    \<open>\<not> wf_json (JObj [(ascii ''a'', JNull), (ascii ''a'', JNull)])\<close>
    by (simp_all add: ascii_def number_text_def whole_text_def digits_value_def Let_def)
  from a b c d show ?thesis by (intro conjI)
qed




section \<open>Properties of the cache\<close>

lemma warm_reached:
  "run HOSTS 30000 [Call 0, Complete 0 1200 (replicate 11 green)] init = Some warm"
  by (simp add: init_def warm_def getStatusData_def fresh_data_def finish_refresh_def HOSTS_def
      Let_def)

text \<open>
  Claim C3. A call of \<^verbatim>\<open>getStatusData\<close> made while a snapshot is stored and the clock is
  strictly before \<^verbatim>\<open>cache.expires\<close> returns the stored snapshot and leaves the whole state
  as it was: the cache, the pending refreshes and the list of hosts probed, so no probe
  starts and no request goes out.
\<close>

theorem getStatusData_valid:
  assumes "data (cache s) = Some d" and "now < expires (cache s)"
  shows "getStatusData hosts now s = (Value d, s)"
  using assms by (simp add: getStatusData_def fresh_data_def)

theorem getStatusData_valid_witness:
  "getStatusData HOSTS 29999 warm = (Value (zip HOSTS (replicate 11 green)), warm)"
  by (rule getStatusData_valid) (simp_all add: warm_def)

lemma refreshing_reached: "run HOSTS 30000 [Call 0] init = Some refreshing"
  by (simp add: init_def refreshing_def getStatusData_def fresh_data_def Let_def)

lemma refreshing_complete:
  "step HOSTS 30000 (Complete 0 1200 (replicate 11 green)) refreshing = Some warm"
  by (simp add: refreshing_def warm_def finish_refresh_def HOSTS_def Let_def)

subsection \<open>Single flight\<close>

lemma single_flight_init: "single_flight init"
  by (simp add: single_flight_def init_def)

lemma single_flight_getStatusData:
  "single_flight s \<Longrightarrow> single_flight (snd (getStatusData hosts now s))"
  by (auto simp: single_flight_def getStatusData_def Let_def split: option.splits)

lemma single_flight_finish_refresh:
  "single_flight s \<Longrightarrow> finish_refresh hosts ttl p results s = Some s' \<Longrightarrow> single_flight s'"
  by (auto simp: single_flight_def finish_refresh_def Let_def map_eq_Cons_conv
      split: option.splits if_splits)

lemma single_flight_step:
  "single_flight s \<Longrightarrow> step hosts ttl e s = Some s' \<Longrightarrow> single_flight s'"
  by (cases e) (auto simp: single_flight_getStatusData single_flight_finish_refresh)

lemma single_flight_run:
  "single_flight s \<Longrightarrow> run hosts ttl evs s = Some s' \<Longrightarrow> single_flight s'"
  by (induction evs arbitrary: s) (auto split: option.splits dest: single_flight_step)

lemma single_flight_reachable: "run hosts ttl evs init = Some s \<Longrightarrow> single_flight s"
  using single_flight_init by (rule single_flight_run)

lemma run_append:
  "run hosts ttl (es @ fs) s =
     (case run hosts ttl es s of None \<Rightarrow> None | Some s' \<Rightarrow> run hosts ttl fs s')"
  by (induction es arbitrary: s) (auto split: option.splits)

lemma calls_joined:
  "inFlight (cache s) = Some p \<Longrightarrow> \<forall>now\<in>set nows. fresh_data (cache s) now = None \<Longrightarrow>
   calls hosts nows s = (replicate (length nows) (Promise p), s)"
  by (induction nows) (auto simp: getStatusData_def)

lemma fresh_data_None: "fresh_data c now = None \<longleftrightarrow> data c = None \<or> expires c \<le> now"
  by (auto simp: fresh_data_def split: option.splits)

lemma calls_stale:
  assumes "nows \<noteq> []" and "\<forall>now\<in>set nows. fresh_data (cache s) now = None"
  shows "\<exists>p s'. calls hosts nows s = (replicate (length nows) (Promise p), s') \<and>
           inFlight (cache s') = Some p \<and>
           data (cache s') = data (cache s) \<and> expires (cache s') = expires (cache s) \<and>
           settled s' = settled s \<and>
           (case inFlight (cache s) of
              Some q \<Rightarrow> s' = s
            | None \<Rightarrow> p = next_promise s \<and> next_promise s' = Suc (next_promise s) \<and>
                pending s' = pending s @ [(p, hd nows)] \<and> probed s' = probed s @ hosts)"
proof (cases nows)
  case Nil
  with assms show ?thesis by simp
next
  case (Cons now rest)
  show ?thesis
  proof (cases "inFlight (cache s)")
    case (Some q)
    with assms show ?thesis by (simp add: calls_joined)
  next
    case None
    let ?p = "next_promise s"
    let ?s1 = "s\<lparr>cache := (cache s)\<lparr>inFlight := Some ?p\<rparr>, pending := pending s @ [(?p, now)],
                 next_promise := Suc ?p, probed := probed s @ hosts\<rparr>"
    have first: "getStatusData hosts now s = (Promise ?p, ?s1)"
      using assms Cons None by (simp add: getStatusData_def Let_def)
    have "calls hosts rest ?s1 = (replicate (length rest) (Promise ?p), ?s1)"
      using assms Cons by (intro calls_joined) (auto simp: fresh_data_def split: option.splits)
    with first Cons None show ?thesis by simp
  qed
qed

text \<open>
  Claim C1. In every state the system reaches, at most one refresh is in flight. When calls
  arrive one after the other while the cache is empty or expired, all of them get the same
  promise; exactly one refresh is started when none was in flight (one promise created,
  each host probed once) and none when one was; and when that refresh completes, the
  promise the callers hold resolves with its payload, which is also the new snapshot.
\<close>

theorem single_flight_refresh:
  assumes "run hosts ttl evs init = Some s"
  shows "length (pending s) \<le> 1 \<and>
    (\<forall>nows. nows \<noteq> [] \<longrightarrow> (\<forall>now\<in>set nows. data (cache s) = None \<or> expires (cache s) \<le> now) \<longrightarrow>
      (\<exists>p s'. calls hosts nows s = (replicate (length nows) (Promise p), s') \<and>
         map fst (pending s') = [p] \<and>
         next_promise s' = (if pending s = [] then Suc (next_promise s) else next_promise s) \<and>
         probed s' = (if pending s = [] then probed s @ hosts else probed s) \<and>
         (\<forall>t results. length results = length hosts \<longrightarrow>
            (\<exists>s''. step hosts ttl (Complete p t results) s' = Some s'' \<and>
               map_of (settled s'') p = Some (zip hosts results) \<and>
               data (cache s'') = Some (zip hosts results) \<and>
               pending s'' = [] \<and> inFlight (cache s'') = None))))"
proof (intro conjI allI impI)
  have sf: "single_flight s" using assms by (rule single_flight_reachable)
  then have "length (map fst (pending s)) \<le> 1"
    unfolding single_flight_def by (simp split: option.splits)
  then show "length (pending s) \<le> 1" by simp
  fix nows :: "int list"
  assume ne: "nows \<noteq> []" and stale: "\<forall>now\<in>set nows. data (cache s) = None \<or> expires (cache s) \<le> now"
  then have "\<forall>now\<in>set nows. fresh_data (cache s) now = None"
    by (simp add: fresh_data_None)
  from calls_stale[OF ne this, of hosts] obtain p s' where
    c: "calls hosts nows s = (replicate (length nows) (Promise p), s')" and
    fl: "inFlight (cache s') = Some p" and
    rest: "case inFlight (cache s) of Some q \<Rightarrow> s' = s
            | None \<Rightarrow> p = next_promise s \<and> next_promise s' = Suc (next_promise s) \<and>
                pending s' = pending s @ [(p, hd nows)] \<and> probed s' = probed s @ hosts"
    by blast
  have sf': "single_flight s'"
    using sf rest fl by (auto simp: single_flight_def split: option.splits)
  then have pend: "map fst (pending s') = [p]" using fl by (simp add: single_flight_def)
  have idle: "pending s = [] \<longleftrightarrow> inFlight (cache s) = None"
    using sf by (auto simp: single_flight_def split: option.splits)
  have cnt: "next_promise s' = (if pending s = [] then Suc (next_promise s) else next_promise s)"
    and prb: "probed s' = (if pending s = [] then probed s @ hosts else probed s)"
    using rest idle by (auto split: option.splits)
  have fin: "\<exists>s''. step hosts ttl (Complete p t results) s' = Some s'' \<and>
               map_of (settled s'') p = Some (zip hosts results) \<and>
               data (cache s'') = Some (zip hosts results) \<and>
               pending s'' = [] \<and> inFlight (cache s'') = None"
    if "length results = length hosts" for t results
    using pend that by (auto simp: finish_refresh_def Let_def map_eq_Cons_conv)
  have fin': "\<forall>t results. length results = length hosts \<longrightarrow>
            (\<exists>s''. step hosts ttl (Complete p t results) s' = Some s'' \<and>
               map_of (settled s'') p = Some (zip hosts results) \<and>
               data (cache s'') = Some (zip hosts results) \<and>
               pending s'' = [] \<and> inFlight (cache s'') = None)"
    using fin by blast
  show "\<exists>p s'. calls hosts nows s = (replicate (length nows) (Promise p), s') \<and>
         map fst (pending s') = [p] \<and>
         next_promise s' = (if pending s = [] then Suc (next_promise s) else next_promise s) \<and>
         probed s' = (if pending s = [] then probed s @ hosts else probed s) \<and>
         (\<forall>t results. length results = length hosts \<longrightarrow>
            (\<exists>s''. step hosts ttl (Complete p t results) s' = Some s'' \<and>
               map_of (settled s'') p = Some (zip hosts results) \<and>
               data (cache s'') = Some (zip hosts results) \<and>
               pending s'' = [] \<and> inFlight (cache s'') = None))"
    apply (rule exI[of _ p], rule exI[of _ s'])
    using c pend cnt prb fin' by (intro conjI)
qed

theorem single_flight_refresh_witness:
  "length (pending warm) \<le> 1 \<and>
   (\<exists>s'. calls HOSTS [30000, 30001, 30007] warm = ([Promise 1, Promise 1, Promise 1], s') \<and>
      map fst (pending s') = [1] \<and> next_promise s' = 2 \<and> probed s' = HOSTS @ HOSTS)"
proof -
  have "[30000, 30001, 30007] \<noteq> ([] :: int list)" by simp
  moreover have "\<forall>now\<in>set [30000, 30001, 30007].
      data (cache warm) = None \<or> expires (cache warm) \<le> now"
    by (simp add: warm_def)
  ultimately show ?thesis
    using single_flight_refresh [OF warm_reached] 
    by (simp add: warm_def getStatusData_def fresh_data_def Let_def)
qed

subsection \<open>The expiry time\<close>

text \<open>
  Claim C2 as stated: the expiry is the completion time of the refresh plus the TTL. It
  fails: a refresh started by a call at time 0 and completed at time 1200, with a TTL of
  30000, leaves \<^verbatim>\<open>cache.expires\<close> at 30000, not at 31200.
\<close>

theorem expires_completion_time_counterexample:
  "run HOSTS 30000 [Call 0, Complete 0 1200 (replicate 11 green)] init = Some warm \<and>
   expires (cache warm) = 0 + 30000 \<and> expires (cache warm) \<noteq> 1200 + 30000"
  using warm_reached by (simp add: warm_def)

lemma pending_origin:
  "run hosts ttl evs init = Some s \<Longrightarrow> (p, now) \<in> set (pending s) \<Longrightarrow>
   \<exists>evs1 nows s0. evs = evs1 @ Call now # map Call nows \<and> run hosts ttl evs1 init = Some s0 \<and>
      fresh_data (cache s0) now = None \<and> inFlight (cache s0) = None \<and> p = next_promise s0"
proof (induction evs arbitrary: s rule: rev_induct)
  case Nil
  then show ?case by (auto simp: init_def)
next
  case (snoc e evs)
  from snoc.prems(1) obtain s1 where
    r1: "run hosts ttl evs init = Some s1" and st: "step hosts ttl e s1 = Some s"
    by (auto simp: run_append split: option.splits)
  have sf: "single_flight s1" using r1 by (rule single_flight_reachable)
  show ?case
  proof (cases e)
    case (Call now')
    show ?thesis
    proof (cases "(p, now) \<in> set (pending s1)")
      case True
      from snoc.IH[OF r1 True] obtain evs1 nows s0 where
        "evs = evs1 @ Call now # map Call nows" "run hosts ttl evs1 init = Some s0"
        "fresh_data (cache s0) now = None" "inFlight (cache s0) = None" "p = next_promise s0"
        by blast
      then have "evs @ [e] = evs1 @ Call now # map Call (nows @ [now'])" using Call by simp
      with \<open>run hosts ttl evs1 init = Some s0\<close> \<open>fresh_data (cache s0) now = None\<close>
        \<open>inFlight (cache s0) = None\<close> \<open>p = next_promise s0\<close>
      show ?thesis by blast
    next
      case False
      with st Call snoc.prems(2) have
        "fresh_data (cache s1) now' = None \<and> inFlight (cache s1) = None \<and>
         p = next_promise s1 \<and> now = now'"
        by (auto simp: getStatusData_def Let_def split: option.splits)
      moreover have "evs @ [e] = evs @ Call now' # map Call []" using Call by simp
      ultimately show ?thesis using r1 by blast
    qed
  next
    case (Complete q t results)
    with st sf have "pending s = []"
      by (auto simp: finish_refresh_def single_flight_def Let_def map_eq_Cons_conv
          split: option.splits if_splits)
    with snoc.prems(2) show ?thesis by simp
  qed
qed

text \<open>
  Claim C2, amended. When a refresh completes, the expiry is the TTL added to the \<^verbatim>\<open>now\<close>
  of the call that started it: that call found nothing pending, created the promise, and
  only calls have happened since. The completion time plays no part.
\<close>

theorem expires_from_starting_call:
  assumes "run hosts ttl evs init = Some s"
    and "step hosts ttl (Complete p t results) s = Some s'"
  shows "\<exists>evs1 now nows s0 s1.
           evs = evs1 @ Call now # map Call nows \<and>
           run hosts ttl evs1 init = Some s0 \<and> pending s0 = [] \<and>
           getStatusData hosts now s0 = (Promise p, s1) \<and> pending s1 = [(p, now)] \<and>
           expires (cache s') = now + ttl"
proof -
  from assms(2) obtain now where
    m: "map_of (pending s) p = Some now" and e: "expires (cache s') = now + ttl"
    by (auto simp: finish_refresh_def Let_def split: option.splits if_splits)
  from m have "(p, now) \<in> set (pending s)" by (rule map_of_SomeD)
  from pending_origin[OF assms(1) this] obtain evs1 nows s0 where
    ev: "evs = evs1 @ Call now # map Call nows" and r0: "run hosts ttl evs1 init = Some s0" and
    fd: "fresh_data (cache s0) now = None" and fl: "inFlight (cache s0) = None" and
    p: "p = next_promise s0"
    by blast
  have "single_flight s0" using r0 by (rule single_flight_reachable)
  with fl have p0: "pending s0 = []" by (simp add: single_flight_def)
  let ?s1 = "snd (getStatusData hosts now s0)"
  have "getStatusData hosts now s0 = (Promise p, ?s1) \<and> pending ?s1 = [(p, now)]"
    using fd fl p p0 by (simp add: getStatusData_def Let_def)
  with ev r0 p0 e show ?thesis by blast
qed

theorem expires_from_starting_call_witness:
  "\<exists>evs1 now nows s0 s1.
     [Call 0] = evs1 @ Call now # map Call nows \<and>
     run HOSTS 30000 evs1 init = Some s0 \<and> pending s0 = [] \<and>
     getStatusData HOSTS now s0 = (Promise 0, s1) \<and> pending s1 = [(0, now)] \<and>
     expires (cache warm) = now + 30000"
  by (rule expires_from_starting_call [OF refreshing_reached refreshing_complete])

section \<open>Properties of the probes\<close>

text \<open>
  Claim C10. With the expected name missing (\<^verbatim>\<open>null\<close>, or the empty string)
  \<^verbatim>\<open>probeNameMatch\<close> answers red with no effect at all: no timeout controller is created
  and nothing is fetched.
\<close>

theorem probeNameMatch_missing_name:
  "probeNameMatch tmo net url JNull = (red, []) \<and>
   probeNameMatch tmo net url (JStr []) = (red, [])"
  by (simp add: probeNameMatch_def)

text \<open>
  Claim C8. \<^verbatim>\<open>probeHostBasic\<close> sets one timeout, sends HEAD to \<^verbatim>\<open>https://<host>/\<close> and,
  only when that gave no response or a status below 200 or at least 400, one GET to the
  same URL before the timeout is cleared. It is green exactly when the HEAD or else the GET
  came back with a status of at least 200 and below 400, and red otherwise; no body is
  read. HEAD 404 then GET 200 is green, 500 on both is red; 199 and 400 are red, 200 and
  399 green.
\<close>

theorem probeHostBasic_head_then_get:
  "(let url = ''https://'' @ host @ ''/'';
        head_ok = (\<exists>r. net HEAD url = Some r \<and> 200 \<le> status r \<and> status r < 400);
        get_ok = (\<exists>r. net GET url = Some r \<and> 200 \<le> status r \<and> status r < 400)
    in snd (probeHostBasic tmo net host) =
         (if head_ok then [SetTimeout tmo, Fetch HEAD url, ClearTimeout]
          else [SetTimeout tmo, Fetch HEAD url, Fetch GET url, ClearTimeout]) \<and>
       (fst (probeHostBasic tmo net host) = green \<longleftrightarrow> head_ok \<or> get_ok) \<and>
       (fst (probeHostBasic tmo net host) = red \<longleftrightarrow> \<not> head_ok \<and> \<not> get_ok)) \<and>
   fst (probeHostBasic tmo net_head404_get200 host) = green \<and>
   fst (probeHostBasic tmo net_all500 host) = red \<and>
   fst (probeHostBasic tmo (net_plain 199) host) = red \<and>
   fst (probeHostBasic tmo (net_plain 200) host) = green \<and>
   fst (probeHostBasic tmo (net_plain 399) host) = green \<and>
   fst (probeHostBasic tmo (net_plain 400) host) = red"
  by (auto simp: probeHostBasic_def tryMethod_def Let_def net_head404_get200_def net_all500_def
      net_plain_def plain_def isOkStatus_def split: option.splits)

theorem probeHostBasic_head_then_get_witness:
  "probeHostBasic 2500 net_head404_get200 ''minecraft.net'' =
     (green, [SetTimeout 2500, Fetch HEAD ''https://minecraft.net/'',
              Fetch GET ''https://minecraft.net/'', ClearTimeout]) \<and>
   probeHostBasic 2500 (net_plain 399) ''minecraft.net'' =
     (green, [SetTimeout 2500, Fetch HEAD ''https://minecraft.net/'', ClearTimeout]) \<and>
   probeHostBasic 2500 (net_plain 400) ''minecraft.net'' =
     (red, [SetTimeout 2500, Fetch HEAD ''https://minecraft.net/'',
            Fetch GET ''https://minecraft.net/'', ClearTimeout])"
  using probeHostBasic_head_then_get [of "''minecraft.net''" net_head404_get200 2500]
    probeHostBasic_head_then_get [of "''minecraft.net''" "net_plain 399" 2500]
    probeHostBasic_head_then_get [of "''minecraft.net''" "net_plain 400" 2500]
  by (simp add: Let_def net_head404_get200_def net_plain_def plain_def prod_eq_iff)


lemma verdict_red_iff: "v = red \<longleftrightarrow> v \<noteq> green"
  by (cases v) auto



text \<open>
  Claim C5 as stated: a content type that contains \<^verbatim>\<open>json\<close> makes an ok response green. It
  fails: status 200 with content type \<^verbatim>\<open>text/json\<close> and a body that does not parse is red.
\<close>

theorem probeJsonAny_header_counterexample:
  "net_text ''text/json'' GET ''https://api.minecraftservices.com/minecraft/profile/lookup/name/jeb_'' =
     Some \<lparr>status = 200, content_type = Some ''text/json'', body_json = None\<rparr> \<and>
   str_includes (toLowerCase ''text/json'') ''json'' \<and>
   fst (probeJsonAny 2500 (net_text ''text/json'')
          ''https://api.minecraftservices.com/minecraft/profile/lookup/name/jeb_'') = red"
  by (simp add: probeJsonAny_def net_text_def isOkStatus_def str_includes_def sublist_code toLowerCase_def
      lower_char_def Let_def)

text \<open>
  Claim C5, amended. \<^verbatim>\<open>probeJsonAny\<close> is green exactly when the GET came back with a status
  of at least 200 and below 400 and either the lower-cased content type contains
  \<^verbatim>\<open>application/json\<close> or \<^verbatim>\<open>+json\<close>, or the body parses as JSON; everything else, a
  rejected \<^verbatim>\<open>fetch\<close> included, is red, and nothing is thrown. With a JSON body, status 199
  and 400 are red, 200 and 399 green.
\<close>

theorem probeJsonAny_green_iff:
  "(fst (probeJsonAny tmo net url) = green \<longleftrightarrow>
      (\<exists>res. net GET url = Some res \<and> 200 \<le> status res \<and> status res < 400 \<and>
         (str_includes (toLowerCase (case content_type res of None \<Rightarrow> [] | Some h \<Rightarrow> h))
            ''application/json'' \<or>
          str_includes (toLowerCase (case content_type res of None \<Rightarrow> [] | Some h \<Rightarrow> h))
            ''+json'' \<or>
          (\<exists>live. body_json res = Some live)))) \<and>
   (fst (probeJsonAny tmo net url) \<noteq> green \<longrightarrow> fst (probeJsonAny tmo net url) = red) \<and>
   (net GET url = None \<longrightarrow> fst (probeJsonAny tmo net url) = red) \<and>
   snd (probeJsonAny tmo net url) = [SetTimeout tmo, Fetch GET url, ClearTimeout] \<and>
   fst (probeJsonAny tmo (net_status 199 (JArr [])) url) = red \<and>
   fst (probeJsonAny tmo (net_status 200 (JArr [])) url) = green \<and>
   fst (probeJsonAny tmo (net_status 399 (JArr [])) url) = green \<and>
   fst (probeJsonAny tmo (net_status 400 (JArr [])) url) = red"
proof -
  have main: "(fst (probeJsonAny tmo net url) = green \<longleftrightarrow>
      (\<exists>res. net GET url = Some res \<and> 200 \<le> status res \<and> status res < 400 \<and>
         (str_includes (toLowerCase (case content_type res of None \<Rightarrow> [] | Some h \<Rightarrow> h))
            ''application/json'' \<or>
          str_includes (toLowerCase (case content_type res of None \<Rightarrow> [] | Some h \<Rightarrow> h))
            ''+json'' \<or>
          (\<exists>live. body_json res = Some live)))) \<and>
   (fst (probeJsonAny tmo net url) \<noteq> green \<longrightarrow> fst (probeJsonAny tmo net url) = red) \<and>
   (net GET url = None \<longrightarrow> fst (probeJsonAny tmo net url) = red) \<and>
   snd (probeJsonAny tmo net url) = [SetTimeout tmo, Fetch GET url, ClearTimeout]"
    by (auto simp: probeJsonAny_def verdict_red_iff Let_def isOkStatus_def split: option.splits)
  have ex: "fst (probeJsonAny tmo (net_status 199 (JArr [])) url) = red"
    "fst (probeJsonAny tmo (net_status 200 (JArr [])) url) = green"
    "fst (probeJsonAny tmo (net_status 399 (JArr [])) url) = green"
    "fst (probeJsonAny tmo (net_status 400 (JArr [])) url) = red"
    by (simp_all add: probeJsonAny_def net_status_def isOkStatus_def Let_def)
  from main ex show ?thesis by (intro conjI) simp_all
qed

theorem probeJsonAny_green_iff_witness:
  "probeJsonAny 2500 (net_text ''Application/JSON; charset=utf-8'') ''https://x/'' =
     (green, [SetTimeout 2500, Fetch GET ''https://x/'', ClearTimeout]) \<and>
   fst (probeJsonAny 2500 (net_json ''text/plain'' (JArr [])) ''https://x/'') = green \<and>
   fst (probeJsonAny 2500 (net_text ''text/html'') ''https://x/'') = red \<and>
   fst (probeJsonAny 2500 net_down ''https://x/'') = red"
  using probeJsonAny_green_iff [of 2500 "net_text ''Application/JSON; charset=utf-8''" "''https://x/''"]
    probeJsonAny_green_iff [of 2500 net_down "''https://x/''"]
  by (simp add: probeJsonAny_def net_text_def net_json_def net_down_def isOkStatus_def
      str_includes_def sublist_code toLowerCase_def lower_char_def Let_def)

text \<open>
  Claim C4 as stated: after a failed load the strategy stays red whatever happens to the
  file, and the failure is logged once, at load time. It fails: \<^verbatim>\<open>probeJsonExactMatch\<close>
  reads the file in every probe. A probe with the file missing is red and logs the warning
  itself; a later probe, once the file is there, is green.
\<close>

theorem reference_reread_counterexample:
  \<open>probeHost 10000 2500 parse_example no_files
      (net_json ''application/json'' (JObj [(ascii ''a'', JNum (Whole 1)), (ascii ''b'', JNum (Whole 2))]))
      JNull ''./apiminecraftservices.json'' ''api.minecraftservices.com'' =
     (red, [ReadFile ''./apiminecraftservices.json'', Warn ''./apiminecraftservices.json'']) \<and>
   probeHost 10000 2500 parse_example (one_file ''./apiminecraftservices.json'' ''{"b":2,"a":1}'')
      (net_json ''application/json'' (JObj [(ascii ''a'', JNum (Whole 1)), (ascii ''b'', JNum (Whole 2))]))
      JNull ''./apiminecraftservices.json'' ''api.minecraftservices.com'' =
     (green, [ReadFile ''./apiminecraftservices.json'', SetTimeout 2500,
              Fetch GET apims_url, ClearTimeout])\<close>
  by (simp add: probeHost_def CUSTOM_CHECKS_def probeJsonExactMatch_def readJsonFile_def
      no_files_def one_file_def parse_example_def strip_bom_def BOM_def net_json_def
      isOkStatus_def apims_url_def eval_stack)

text \<open>
  Claim C4, amended. A probe that finds the reference document missing or unparsable is
  red: it logs one warning, creates no timeout, fetches nothing and raises nothing. The
  same holds for the host the strategy is configured for.
\<close>

theorem unreadable_reference_red:
  assumes "files path = None \<or> (\<exists>raw. files path = Some raw \<and> parse (strip_bom raw) = None)"
  shows "probeJsonExactMatch stack tmo parse files net url path = (red, [ReadFile path, Warn path]) \<and>
         probeHost stack tmo parse files net name path ''api.minecraftservices.com'' =
           (red, [ReadFile path, Warn path])"
  using assms
  by (auto simp: probeHost_def CUSTOM_CHECKS_def probeJsonExactMatch_def readJsonFile_def)

theorem unreadable_reference_red_witness:
  \<open>probeHost 10000 2500 parse_example (one_file ''./apiminecraftservices.json'' ''{"b":2,'')
      (net_json ''application/json'' (JObj [(ascii ''a'', JNum (Whole 1)), (ascii ''b'', JNum (Whole 2))]))
      JNull ''./apiminecraftservices.json'' ''api.minecraftservices.com'' =
     (red, [ReadFile ''./apiminecraftservices.json'', Warn ''./apiminecraftservices.json''])\<close>
proof -
  have \<open>one_file ''./apiminecraftservices.json'' ''{"b":2,'' ''./apiminecraftservices.json'' = None \<or>
      (\<exists>raw. one_file ''./apiminecraftservices.json'' ''{"b":2,'' ''./apiminecraftservices.json'' = Some raw \<and>
         parse_example (strip_bom raw) = None)\<close>
    by (simp add: one_file_def parse_example_def strip_bom_def BOM_def)
  from unreadable_reference_red [where files = \<open>one_file ''./apiminecraftservices.json'' ''{"b":2,''\<close>
      and path = "''./apiminecraftservices.json''" and parse = parse_example, OF this]
  show ?thesis by simp
qed








end
